theory Spec2Isabelle
  imports Complex_Main "HOL-Library.Sublist"
begin

section \<open>Evidence aggregation and quality scoring\<close>

text \<open>
  A shallow embedding of \<^verbatim>\<open>academic_tools.py\<close> and \<^verbatim>\<open>agent.py\<close>.

  Conventions of the embedding.
  \<^item> Python \<^verbatim>\<open>str\<close> is \<^typ>\<open>string\<close>; the substring test \<^verbatim>\<open>a in b\<close> is
    \<^term>\<open>sublist a b\<close>. \<^verbatim>\<open>str.lower\<close> is modelled on ASCII letters and leaves every
    other character as it is.
  \<^item> Python \<^verbatim>\<open>float\<close> values are modelled as exact rationals (\<^typ>\<open>rat\<close>): the
    decimal literals of the source denote the fractions they spell, and \<^verbatim>\<open>+\<close>,
    \<^verbatim>\<open>*\<close>, \<^verbatim>\<open>/\<close> and \<^verbatim>\<open>min\<close> are exact. Rounding of IEEE doubles is not modelled.
  \<^item> \<^verbatim>\<open>Optional[T]\<close> is \<^typ>\<open>'a option\<close>; a dictionary read with \<^verbatim>\<open>.get(key, default)\<close>
    is an optional field with the default written out.
  \<^item> \<^verbatim>\<open>datetime.now().year\<close> is a parameter \<open>current_year\<close>.
\<close>

subsection \<open>Strings\<close>

definition lower_char :: "char \<Rightarrow> char" where
  "lower_char c =
     (let n = (of_char c :: nat) in if 65 \<le> n \<and> n \<le> 90 then char_of (n + 32) else c)"

definition py_lower :: "string \<Rightarrow> string" where
  "py_lower s = map lower_char s"

text \<open>\<^verbatim>\<open>any(term in text for term in terms)\<close>\<close>

definition any_term_in :: "string list \<Rightarrow> string \<Rightarrow> bool" where
  "any_term_in terms text = list_ex (\<lambda>t. sublist t text) terms"

subsection \<open>The record of a paper\<close>

record AcademicPaper =
  title :: string
  authors :: "string list"
  abstract :: string
  publication_date :: string
  journal :: string
  pmid :: "string option"
  doi :: "string option"
  url :: string
  study_type :: string
  sample_size :: "int option"
  peer_reviewed :: bool
  impact_factor :: "rat option"
  conflicts_disclosed :: bool
  funding_source :: string
  quality_score :: rat

subsection \<open>Study classification\<close>

text \<open>\<^verbatim>\<open>PubMedSearcher._classify_study_type\<close>\<close>

definition classify_study_type :: "string \<Rightarrow> string \<Rightarrow> string" where
  "classify_study_type ttl abstr =
     (let text = py_lower (ttl @ '' '' @ abstr) in
      if any_term_in [''meta-analysis'', ''meta analysis'', ''systematic review''] text
        then ''meta-analysis''
      else if any_term_in [''randomized controlled trial'', ''rct'', ''randomized''] text
        then ''rct''
      else if any_term_in [''cohort study'', ''longitudinal'', ''prospective''] text
        then ''cohort''
      else if any_term_in [''case-control'', ''case control''] text
        then ''case-control''
      else if any_term_in [''cross-sectional'', ''survey''] text
        then ''cross-sectional''
      else if any_term_in [''review'', ''narrative review''] text
        then ''review''
      else ''observational'')"

text \<open>
  The specification's reading of the classifier: an ordered table of
  (keywords, label) pairs, evaluated top to bottom, the first pair with a keyword in the
  text giving the label, and a default label when no pair matches.
\<close>

definition classifier_rules :: "(string list \<times> string) list" where
  "classifier_rules =
     [([''meta-analysis'', ''meta analysis'', ''systematic review''], ''meta-analysis''),
      ([''randomized controlled trial'', ''rct'', ''randomized''], ''rct''),
      ([''cohort study'', ''longitudinal'', ''prospective''], ''cohort''),
      ([''case-control'', ''case control''], ''case-control''),
      ([''cross-sectional'', ''survey''], ''cross-sectional''),
      ([''review'', ''narrative review''], ''review'')]"

fun first_match :: "(string list \<times> string) list \<Rightarrow> string \<Rightarrow> string \<Rightarrow> string" where
  "first_match [] text dflt = dflt"
| "first_match ((terms, label) # rules) text dflt =
     (if any_term_in terms text then label else first_match rules text dflt)"

definition classifier_labels :: "string list" where
  "classifier_labels =
     [''meta-analysis'', ''rct'', ''cohort'', ''case-control'', ''cross-sectional'',
      ''review'', ''observational'']"

subsection \<open>Reading an integer from text\<close>

text \<open>
  Python's \<^verbatim>\<open>int(s)\<close> on a string: surrounding whitespace is dropped, one sign is
  allowed, then decimal digits, where single underscores may stand between digits.
  \<open>None\<close> is \<^verbatim>\<open>ValueError\<close>. ASCII whitespace and ASCII digits are modelled.
\<close>

definition is_py_space :: "char \<Rightarrow> bool" where
  "is_py_space c =
     (let n = (of_char c :: nat) in (9 \<le> n \<and> n \<le> 13) \<or> (28 \<le> n \<and> n \<le> 32))"

definition py_strip :: "string \<Rightarrow> string" where
  "py_strip s = rev (dropWhile is_py_space (rev (dropWhile is_py_space s)))"

definition digit_of :: "char \<Rightarrow> nat option" where
  "digit_of c =
     (let n = (of_char c :: nat) in if 48 \<le> n \<and> n \<le> 57 then Some (n - 48) else None)"

fun parse_digits :: "nat \<Rightarrow> string \<Rightarrow> nat option" where
  "parse_digits acc [] = Some acc"
| "parse_digits acc [c] =
     (case digit_of c of Some v \<Rightarrow> Some (10 * acc + v) | None \<Rightarrow> None)"
| "parse_digits acc (c # d # ds) =
     (case digit_of c of
        Some v \<Rightarrow> parse_digits (10 * acc + v) (d # ds)
      | None \<Rightarrow>
          (if c = CHR ''_''
           then (case digit_of d of
                   Some v \<Rightarrow> parse_digits (10 * acc + v) ds
                 | None \<Rightarrow> None)
           else None))"

definition parse_unsigned :: "string \<Rightarrow> nat option" where
  "parse_unsigned s =
     (case s of
        [] \<Rightarrow> None
      | d # ds \<Rightarrow> (case digit_of d of Some v \<Rightarrow> parse_digits v ds | None \<Rightarrow> None))"

definition py_int :: "string \<Rightarrow> int option" where
  "py_int s =
     (case py_strip s of
        [] \<Rightarrow> None
      | c # cs \<Rightarrow>
          (if c = CHR ''-'' then map_option (\<lambda>n. - int n) (parse_unsigned cs)
           else if c = CHR ''+'' then map_option int (parse_unsigned cs)
           else map_option int (parse_unsigned (c # cs))))"

subsection \<open>Quality scoring\<close>

text \<open>\<^verbatim>\<open>PubMedSearcher._assess_paper_quality\<close>, term by term.\<close>

definition type_scores :: "string \<rightharpoonup> rat" where
  "type_scores =
     map_of [(''meta-analysis'', 1), (''rct'', 9 / 10), (''cohort'', 7 / 10),
             (''case-control'', 6 / 10), (''cross-sectional'', 4 / 10), (''review'', 3 / 10),
             (''observational'', 5 / 10)]"

definition study_type_term :: "string \<Rightarrow> rat" where
  "study_type_term st = (case type_scores st of Some w \<Rightarrow> w | None \<Rightarrow> 3 / 10) * (4 / 10)"

text \<open>\<^verbatim>\<open>if paper.sample_size:\<close> is false for \<^verbatim>\<open>None\<close> and for 0.\<close>

definition sample_size_bonus :: "int option \<Rightarrow> rat" where
  "sample_size_bonus ss =
     (case ss of
        None \<Rightarrow> 0
      | Some n \<Rightarrow>
          (if n = 0 then 0
           else if n \<ge> 1000 then 3 / 10
           else if n \<ge> 100 then 2 / 10
           else if n \<ge> 50 then 1 / 10
           else 0))"

definition high_impact_journals :: "string list" where
  "high_impact_journals =
     [''new england journal of medicine'', ''lancet'', ''jama'', ''bmj'',
      ''nature'', ''science'', ''cochrane'']"

definition journal_bonus :: "string \<Rightarrow> rat" where
  "journal_bonus j =
     (if any_term_in (map py_lower high_impact_journals) (py_lower j) then 2 / 10 else 0)"

text \<open>
  The \<^verbatim>\<open>try\<close> block around the year: \<^verbatim>\<open>int(publication_date[-4:])\<close> raising
  \<^verbatim>\<open>ValueError\<close> is caught and adds nothing.
\<close>

definition recency_bonus :: "int \<Rightarrow> string \<Rightarrow> rat" where
  "recency_bonus current_year d =
     (if d \<noteq> [] \<and> length d \<ge> 4
      then (case py_int (drop (length d - 4) d) of
              None \<Rightarrow> 0
            | Some year \<Rightarrow> (if current_year - year \<le> 5 then 1 / 10 else 0))
      else 0)"

definition disclosure_bonus :: "bool \<Rightarrow> rat" where
  "disclosure_bonus c = (if c then 5 / 100 else 0)"

text \<open>The value of \<^verbatim>\<open>score\<close> before the final \<^verbatim>\<open>min(1.0, score)\<close>.\<close>

definition quality_sum :: "int \<Rightarrow> AcademicPaper \<Rightarrow> rat" where
  "quality_sum current_year p =
     0 + study_type_term (study_type p) + sample_size_bonus (sample_size p)
       + journal_bonus (journal p) + recency_bonus current_year (publication_date p)
       + disclosure_bonus (conflicts_disclosed p)"

definition assess_paper_quality :: "int \<Rightarrow> AcademicPaper \<Rightarrow> rat" where
  "assess_paper_quality current_year p = min 1 (quality_sum current_year p)"

subsection \<open>Papers and web sources as dictionaries\<close>

text \<open>
  The dictionaries of \<^verbatim>\<open>ResearchState\<close>. The two keys that the grader and the
  confidence calculation read with \<^verbatim>\<open>.get\<close> are optional: \<open>None\<close> is an absent key.
  A text that is \<open>None\<close> is the value \<^verbatim>\<open>None\<close> of Python, which the parsers can store
  there.
\<close>

record paper_dict =
  d_title :: "string option"
  d_authors :: "string list"
  d_abstract :: "string option"
  d_journal :: "string option"
  d_publication_date :: "string option"
  d_url :: string
  d_study_type :: "string option"
  d_sample_size :: "int option"
  d_quality_score :: "rat option"
  d_peer_reviewed :: bool
  d_pmid :: "string option"

record web_source =
  w_title :: "string option"
  w_url :: string
  w_content :: "string option"
  w_source_type :: string
  w_credibility_score :: "rat option"

text \<open>The conversion loop of \<^verbatim>\<open>AspartameAgent.academic_search\<close>.\<close>

definition paper_to_dict :: "AcademicPaper \<Rightarrow> paper_dict" where
  "paper_to_dict p =
     \<lparr> d_title = Some (title p), d_authors = authors p, d_abstract = Some (abstract p),
       d_journal = Some (journal p), d_publication_date = Some (publication_date p),
       d_url = url p,
       d_study_type = Some (study_type p), d_sample_size = sample_size p,
       d_quality_score = Some (quality_score p), d_peer_reviewed = peer_reviewed p,
       d_pmid = pmid p \<rparr>"

subsection \<open>Evidence grade\<close>

definition get_study_type :: "paper_dict \<Rightarrow> string" where
  "get_study_type p = (case d_study_type p of Some t \<Rightarrow> t | None \<Rightarrow> ''unknown'')"

definition get_quality_score :: "paper_dict \<Rightarrow> rat" where
  "get_quality_score p = (case d_quality_score p of Some q \<Rightarrow> q | None \<Rightarrow> 0)"

text \<open>\<^verbatim>\<open>AspartameAgent._assess_evidence_grade\<close>\<close>

definition assess_evidence_grade :: "paper_dict list \<Rightarrow> string" where
  "assess_evidence_grade academic_papers =
     (if academic_papers = [] then ''Very Low - No academic studies found''
      else
        let study_types = map get_study_type academic_papers in
        if ''meta-analysis'' \<in> set study_types then
          (if length (filter (\<lambda>p. get_quality_score p > 8 / 10) academic_papers) \<ge> 2
           then ''High - Multiple high-quality meta-analyses''
           else ''Moderate - Meta-analysis available but limited quality'')
        else if ''rct'' \<in> set study_types then
          (let rct_count = count_list study_types ''rct'' in
           if rct_count \<ge> 3
           then ''Moderate - Multiple randomized controlled trials''
           else ''Low - Limited randomized controlled trials'')
        else if list_ex (\<lambda>t. t \<in> set study_types) [''cohort'', ''case-control'']
          then ''Low - Observational studies only''
        else ''Very Low - Limited study evidence'')"

text \<open>
  The specification's reading of the grader: seven rules in order, each a condition on the
  record collection and a label; the rule that fires is the first whose condition holds.
\<close>

definition has_type :: "string \<Rightarrow> paper_dict list \<Rightarrow> bool" where
  "has_type t ps = list_ex (\<lambda>p. get_study_type p = t) ps"

definition count_type :: "string \<Rightarrow> paper_dict list \<Rightarrow> nat" where
  "count_type t ps = length (filter (\<lambda>p. get_study_type p = t) ps)"

definition count_high_quality :: "paper_dict list \<Rightarrow> nat" where
  "count_high_quality ps = length (filter (\<lambda>p. get_quality_score p > 8 / 10) ps)"

definition grade_rules :: "((paper_dict list \<Rightarrow> bool) \<times> string) list" where
  "grade_rules =
     [(\<lambda>ps. ps = [], ''Very Low - No academic studies found''),
      (\<lambda>ps. has_type ''meta-analysis'' ps \<and> count_high_quality ps \<ge> 2,
         ''High - Multiple high-quality meta-analyses''),
      (\<lambda>ps. has_type ''meta-analysis'' ps,
         ''Moderate - Meta-analysis available but limited quality''),
      (\<lambda>ps. has_type ''rct'' ps \<and> count_type ''rct'' ps \<ge> 3,
         ''Moderate - Multiple randomized controlled trials''),
      (\<lambda>ps. has_type ''rct'' ps, ''Low - Limited randomized controlled trials''),
      (\<lambda>ps. has_type ''cohort'' ps \<or> has_type ''case-control'' ps,
         ''Low - Observational studies only''),
      (\<lambda>ps. True, ''Very Low - Limited study evidence'')]"

text \<open>Rule number \<open>k\<close> (counted from 0) fires: its condition holds and no earlier one does.\<close>

definition rule_fires :: "nat \<Rightarrow> paper_dict list \<Rightarrow> bool" where
  "rule_fires k ps =
     (k < length grade_rules \<and> fst (grade_rules ! k) ps
      \<and> list_all (\<lambda>r. \<not> fst r ps) (take k grade_rules))"

text \<open>The number of the first rule whose condition holds.\<close>

definition first_index :: "paper_dict list \<Rightarrow> nat" where
  "first_index ps = length (takeWhile (\<lambda>r. \<not> fst r ps) grade_rules)"

subsection \<open>Confidence\<close>

definition get_credibility_score :: "web_source \<Rightarrow> rat" where
  "get_credibility_score s = (case w_credibility_score s of Some c \<Rightarrow> c | None \<Rightarrow> 5 / 10)"

text \<open>
  \<^verbatim>\<open>AspartameAgent._calculate_confidence\<close>. \<^verbatim>\<open>len(set(p.get('study_type') ...))\<close>
  counts the distinct values of the key, an absent key being the value \<^verbatim>\<open>None\<close>.
  The two local variables \<^verbatim>\<open>academic_confidence\<close> and \<^verbatim>\<open>web_confidence\<close> are
  definitions of their own.
\<close>

definition academic_confidence :: "paper_dict list \<Rightarrow> rat" where
  "academic_confidence academic_papers =
     (if academic_papers \<noteq> [] then
        (let avg_quality = sum_list (map get_quality_score academic_papers)
                             / of_nat (length academic_papers);
             study_diversity =
               of_nat (length (remdups (map d_study_type academic_papers))) / 5
         in avg_quality * (8 / 10) + study_diversity * (2 / 10))
      else 0)"

definition web_confidence :: "web_source list \<Rightarrow> rat" where
  "web_confidence web_sources =
     (if web_sources \<noteq> [] then
        (let avg_credibility = sum_list (map get_credibility_score web_sources)
                                 / of_nat (length web_sources)
         in avg_credibility * (5 / 10))
      else 0)"

definition calculate_confidence :: "paper_dict list \<Rightarrow> web_source list \<Rightarrow> rat" where
  "calculate_confidence academic_papers web_sources =
     (if academic_papers = [] \<and> web_sources = [] then 2 / 10
      else
        let total_confidence =
              academic_confidence academic_papers * (7 / 10)
                + web_confidence web_sources * (3 / 10)
        in min (95 / 100) total_confidence)"

subsection \<open>The outside world\<close>

text \<open>
  The program talks to four services and reads their payloads with library parsers. None
  of this is code of the repository; it is the environment of the model.
  \<^item> An HTTP request either raises (a timeout or a connection error of \<^verbatim>\<open>requests\<close>) or
    returns a status code and a body. The answer may depend on the requests made so far, so
    that the same request can fail once and succeed later.
  \<^item> A call of the language model either raises or returns the text of its reply.
  \<^item> \<^verbatim>\<open>ET.fromstring\<close> either raises \<^verbatim>\<open>ParseError\<close> (\<open>None\<close>) or returns an
    element tree. The text of an element is a string or, for an element without text,
    \<^verbatim>\<open>None\<close>.
  \<^item> \<^verbatim>\<open>re.search(pattern, text)\<close> returns the first group of the first match, if any.
  \<^item> \<^verbatim>\<open>response.json().get("results", [])\<close> either raises or returns a list of result
    objects. A key of a result object is missing, \<^verbatim>\<open>null\<close> or a string; values of other
    JSON types are not modelled.
  A value that is a string or \<^verbatim>\<open>None\<close> in Python is a \<^typ>\<open>string option\<close>.
  Every function that makes a request takes the list of requests made so far and returns it
  extended, so that the order and number of calls can be stated.
\<close>

datatype py_exception =
  RequestException | ParseError | ValueError | JSONDecodeError | IndexError | TypeError
  | AttributeError

datatype llm_stage = Planning | Academic_queries | Web_queries | Analysis | Summary

datatype request =
    PubMed_esearch string nat
  | PubMed_efetch string
  | ArXiv_query string nat
  | Tavily_search string
  | LLM_invoke llm_stage

datatype http_outcome = Http_raises | Http_response nat string

datatype xml = Element (tag: string) (attrib: "(string \<times> string) list")
  (etext: "string option") (children: "xml list")

datatype pattern = N_equals | Count_of_people | Total_of | Sample_size_of

datatype json_text = Missing | Null | Text string

record tavily_item =
  r_title :: json_text
  r_url :: json_text
  r_content :: json_text

record world =
  net :: "request list \<Rightarrow> request \<Rightarrow> http_outcome"
  llm :: "request list \<Rightarrow> llm_stage \<Rightarrow> string option"
  fromstring :: "string \<Rightarrow> xml option"
  re_search :: "pattern \<Rightarrow> string \<Rightarrow> string option"
  json_results :: "string \<Rightarrow> tavily_item list option"
  tavily_key :: "string option"
  this_year :: int

type_synonym 'a outcome = "(py_exception + 'a) \<times> request list"

text \<open>\<^verbatim>\<open>requests.get\<close> and \<^verbatim>\<open>requests.post\<close>: the request is logged, then answered.\<close>

definition send :: "world \<Rightarrow> request \<Rightarrow> request list \<Rightarrow> (nat \<times> string) outcome" where
  "send w r lg =
     (case net w lg r of
        Http_raises \<Rightarrow> (Inl RequestException, lg @ [r])
      | Http_response status body \<Rightarrow> (Inr (status, body), lg @ [r]))"

text \<open>\<^verbatim>\<open>self.llm.invoke(messages).content\<close>\<close>

definition invoke :: "world \<Rightarrow> llm_stage \<Rightarrow> request list \<Rightarrow> string outcome" where
  "invoke w stage lg =
     (case llm w lg stage of
        None \<Rightarrow> (Inl RequestException, lg @ [LLM_invoke stage])
      | Some reply \<Rightarrow> (Inr reply, lg @ [LLM_invoke stage]))"

text \<open>\<^verbatim>\<open>try: ... except Exception: return dflt\<close>\<close>

definition except_return :: "'a outcome \<Rightarrow> 'a \<Rightarrow> 'a outcome" where
  "except_return r dflt = (case r of (Inl e, lg) \<Rightarrow> (Inr dflt, lg) | (Inr v, lg) \<Rightarrow> (Inr v, lg))"

text \<open>One statement after another: an exception of the first ends the function.\<close>

definition and_then :: "'a outcome \<Rightarrow> ('a \<Rightarrow> request list \<Rightarrow> 'b outcome) \<Rightarrow> 'b outcome" where
  "and_then r f = (case r of (Inl e, lg) \<Rightarrow> (Inl e, lg) | (Inr v, lg) \<Rightarrow> f v lg)"

text \<open>A value in an f-string: \<^verbatim>\<open>None\<close> is printed as the text None.\<close>

definition fmt :: "string option \<Rightarrow> string" where
  "fmt v = (case v of Some s \<Rightarrow> s | None \<Rightarrow> ''None'')"

definition or_empty :: "string option \<Rightarrow> string" where
  "or_empty v = (case v of Some s \<Rightarrow> s | None \<Rightarrow> [])"

subsection \<open>Element trees\<close>

text \<open>All elements below an element, in document order: the path \<^verbatim>\<open>.//\<close>.\<close>

fun descendants :: "xml \<Rightarrow> xml list" where
  "descendants (Element t a x cs) = concat (map (\<lambda>c. c # descendants c) cs)"

text \<open>\<^verbatim>\<open>e.findall(".//T")\<close>, \<^verbatim>\<open>e.find(".//T")\<close>, \<^verbatim>\<open>e.find(".//A/B")\<close>,
  \<^verbatim>\<open>e.find("T")\<close> and \<^verbatim>\<open>e.findall("T")\<close>\<close>

definition findall_desc :: "string \<Rightarrow> xml \<Rightarrow> xml list" where
  "findall_desc t e = filter (\<lambda>x. tag x = t) (descendants e)"

definition first_of :: "'a list \<Rightarrow> 'a option" where
  "first_of xs = (case xs of [] \<Rightarrow> None | x # _ \<Rightarrow> Some x)"

definition find_desc :: "string \<Rightarrow> xml \<Rightarrow> xml option" where
  "find_desc t e = first_of (findall_desc t e)"

definition findall_child :: "string \<Rightarrow> xml \<Rightarrow> xml list" where
  "findall_child t e = filter (\<lambda>x. tag x = t) (children e)"

definition find_child :: "string \<Rightarrow> xml \<Rightarrow> xml option" where
  "find_child t e = first_of (findall_child t e)"

definition find_desc_child :: "string \<Rightarrow> string \<Rightarrow> xml \<Rightarrow> xml option" where
  "find_desc_child a b e = first_of (concat (map (findall_child b) (findall_desc a e)))"

text \<open>\<^verbatim>\<open>e.get(key)\<close> on an element reads an attribute.\<close>

definition get_attrib :: "string \<Rightarrow> xml \<Rightarrow> string option" where
  "get_attrib k e = map_of (attrib e) k"

subsection \<open>More string operations\<close>

text \<open>\<^verbatim>\<open>sep.join(xs)\<close>, \<^verbatim>\<open>s.strip('"')\<close>, \<^verbatim>\<open>s.split('|')\<close> and the first word of
  \<^verbatim>\<open>s.split()\<close>\<close>

fun join :: "string \<Rightarrow> string list \<Rightarrow> string" where
  "join sep [] = []"
| "join sep [x] = x"
| "join sep (x # y # ys) = x @ sep @ join sep (y # ys)"

definition strip_quotes :: "string \<Rightarrow> string" where
  "strip_quotes s =
     rev (dropWhile (\<lambda>c. c = CHR 0x22) (rev (dropWhile (\<lambda>c. c = CHR 0x22) s)))"

fun split_on :: "char \<Rightarrow> string \<Rightarrow> string list" where
  "split_on sep [] = [[]]"
| "split_on sep (c # cs) =
     (if c = sep then [] # split_on sep cs
      else (case split_on sep cs of [] \<Rightarrow> [[c]] | x # xs \<Rightarrow> (c # x) # xs))"

definition first_word :: "string \<Rightarrow> string option" where
  "first_word s =
     (case takeWhile (\<lambda>c. \<not> is_py_space c) (dropWhile is_py_space s) of
        [] \<Rightarrow> None
      | c # cs \<Rightarrow> Some (c # cs))"

subsection \<open>Parsing a PubMed article\<close>

text \<open>
  What an \<^verbatim>\<open>AcademicPaper\<close> object holds at run time. The dataclass declares the text
  fields as \<^verbatim>\<open>str\<close>, but the parser stores the text of an element as it is, so that the
  title, the abstract, the publication date, the journal, the PMID and the DOI of a parsed
  article can be \<^verbatim>\<open>None\<close>.
\<close>

record paper_object =
  o_title :: "string option"
  o_authors :: "string list"
  o_abstract :: "string option"
  o_publication_date :: "string option"
  o_journal :: "string option"
  o_pmid :: "string option"
  o_doi :: "string option"
  o_url :: string
  o_study_type :: string
  o_sample_size :: "int option"
  o_peer_reviewed :: bool
  o_impact_factor :: "rat option"
  o_conflicts_disclosed :: bool
  o_funding_source :: string
  o_quality_score :: rat

text \<open>An object whose fields have the declared types.\<close>

definition object_of :: "AcademicPaper \<Rightarrow> paper_object" where
  "object_of p =
     \<lparr> o_title = Some (title p), o_authors = authors p, o_abstract = Some (abstract p),
       o_publication_date = Some (publication_date p), o_journal = Some (journal p),
       o_pmid = pmid p, o_doi = doi p, o_url = url p, o_study_type = study_type p,
       o_sample_size = sample_size p, o_peer_reviewed = peer_reviewed p,
       o_impact_factor = impact_factor p, o_conflicts_disclosed = conflicts_disclosed p,
       o_funding_source = funding_source p, o_quality_score = quality_score p \<rparr>"

text \<open>\<^verbatim>\<open>PubMedSearcher._extract_sample_size\<close>: the four patterns in order; a match whose
  group is not an integer is skipped.\<close>

fun first_sample :: "world \<Rightarrow> pattern list \<Rightarrow> string \<Rightarrow> int option" where
  "first_sample w [] a = None"
| "first_sample w (p # ps) a =
     (case re_search w p a of
        None \<Rightarrow> first_sample w ps a
      | Some g \<Rightarrow> (case py_int g of Some n \<Rightarrow> Some n | None \<Rightarrow> first_sample w ps a))"

definition extract_sample_size :: "world \<Rightarrow> string option \<Rightarrow> int option" where
  "extract_sample_size w abstr =
     (case abstr of
        None \<Rightarrow> None
      | Some a \<Rightarrow>
          (if a = [] then None
           else first_sample w [N_equals, Count_of_people, Total_of, Sample_size_of] a))"

text \<open>\<^verbatim>\<open>PubMedSearcher._extract_funding\<close>\<close>

definition extract_funding :: "xml \<Rightarrow> string" where
  "extract_funding article_xml =
     (let grants = findall_desc ''Grant'' article_xml in
      if grants \<noteq> [] then
        (let agencies =
               concat (map (\<lambda>grant. (case find_child ''Agency'' grant of
                                         None \<Rightarrow> []
                                       | Some agency \<Rightarrow>
                                           (case etext agency of
                                              None \<Rightarrow> []
                                            | Some t \<Rightarrow> (if t \<noteq> [] then [t] else []))))
                           grants)
         in if agencies \<noteq> [] then join '', '' agencies else ''Grant funded'')
      else [])"

text \<open>\<^verbatim>\<open>PubMedSearcher._check_conflicts_disclosed\<close>\<close>

definition check_conflicts_disclosed :: "xml \<Rightarrow> bool" where
  "check_conflicts_disclosed article_xml =
     list_ex (\<lambda>text_elem. (case get_attrib ''Label'' text_elem of
                              None \<Rightarrow> False
                            | Some l \<Rightarrow> l \<noteq> [] \<and> sublist ''conflict'' (py_lower l)))
             (findall_desc ''AbstractText'' article_xml)"

text \<open>\<^verbatim>\<open>PubMedSearcher._parse_paper_xml\<close>. No step of the body raises, also where a text
  is \<^verbatim>\<open>None\<close>: the f-strings print it, \<^verbatim>\<open>_extract_sample_size\<close> tests it first. So the
  \<^verbatim>\<open>except\<close> branch that returns \<^verbatim>\<open>None\<close> is never taken and the result is always a
  paper.\<close>

definition parse_paper_xml :: "world \<Rightarrow> xml \<Rightarrow> paper_object option" where
  "parse_paper_xml w article_xml =
     (let pmid_v = (case find_desc ''PMID'' article_xml of None \<Rightarrow> None | Some e \<Rightarrow> etext e);
          title_v = (case find_desc ''ArticleTitle'' article_xml of
                       None \<Rightarrow> Some ''No title'' | Some e \<Rightarrow> etext e);
          abstract_v = (case find_desc ''AbstractText'' article_xml of
                          None \<Rightarrow> Some [] | Some e \<Rightarrow> etext e);
          authors_v =
            concat (map (\<lambda>author.
                           (case (find_child ''LastName'' author, find_child ''ForeName'' author) of
                              (Some last_name, Some first_name) \<Rightarrow>
                                [fmt (etext first_name) @ '' '' @ fmt (etext last_name)]
                            | _ \<Rightarrow> []))
                        (findall_desc ''Author'' article_xml));
          journal_v = (case find_desc_child ''Journal'' ''Title'' article_xml of
                         None \<Rightarrow> Some ''Unknown Journal'' | Some e \<Rightarrow> etext e);
          pub_date =
            (case find_desc_child ''PubDate'' ''Year'' article_xml of
               None \<Rightarrow> Some []
             | Some year_elem \<Rightarrow>
                 (case find_desc_child ''PubDate'' ''Month'' article_xml of
                    None \<Rightarrow> etext year_elem
                  | Some month_elem \<Rightarrow>
                      Some (fmt (etext month_elem) @ '' '' @ fmt (etext year_elem))));
          doi_v = (case List.find (\<lambda>id_elem. get_attrib ''IdType'' id_elem = Some ''doi'')
                                  (findall_desc ''ArticleId'' article_xml) of
                     None \<Rightarrow> None | Some id_elem \<Rightarrow> etext id_elem);
          url_v = (case pmid_v of
                     None \<Rightarrow> []
                   | Some i \<Rightarrow> (if i = [] then []
                                 else ''https://pubmed.ncbi.nlm.nih.gov/'' @ i @ ''/''))
      in Some \<lparr> o_title = title_v, o_authors = authors_v, o_abstract = abstract_v,
                o_publication_date = pub_date, o_journal = journal_v, o_pmid = pmid_v,
                o_doi = doi_v, o_url = url_v,
                o_study_type = classify_study_type (fmt title_v) (fmt abstract_v),
                o_sample_size = extract_sample_size w abstract_v, o_peer_reviewed = True,
                o_impact_factor = None,
                o_conflicts_disclosed = check_conflicts_disclosed article_xml,
                o_funding_source = extract_funding article_xml, o_quality_score = 0 \<rparr>)"

subsection \<open>PubMed retrieval\<close>

text \<open>\<^verbatim>\<open>PubMedSearcher._search_pmids\<close>: the body of the \<^verbatim>\<open>try\<close>, then the function
  with its \<^verbatim>\<open>except Exception: return []\<close>. An id is the text of an \<^verbatim>\<open>Id\<close> element and
  can be \<^verbatim>\<open>None\<close>.\<close>

definition search_pmids_body ::
  "world \<Rightarrow> string \<Rightarrow> nat \<Rightarrow> request list \<Rightarrow> string option list outcome" where
  "search_pmids_body w query max_results lg =
     (case send w (PubMed_esearch query max_results) lg of
        (Inl e, lg') \<Rightarrow> (Inl e, lg')
      | (Inr (status, body), lg') \<Rightarrow>
          (if status \<noteq> 200 then (Inr [], lg')
           else (case fromstring w body of
                   None \<Rightarrow> (Inl ParseError, lg')
                 | Some tree \<Rightarrow> (Inr (map etext (findall_desc ''Id'' tree)), lg'))))"

definition search_pmids ::
  "world \<Rightarrow> string \<Rightarrow> nat \<Rightarrow> request list \<Rightarrow> string option list outcome" where
  "search_pmids w query max_results lg =
     except_return (search_pmids_body w query max_results lg) []"

text \<open>\<^verbatim>\<open>PubMedSearcher._fetch_paper_details\<close>. The parameters, with
  \<^verbatim>\<open>",".join(pmids)\<close>, are built before the \<^verbatim>\<open>try\<close>: an id that is \<^verbatim>\<open>None\<close> raises
  \<^verbatim>\<open>TypeError\<close> there, and no handler of this function catches it. Inside the \<^verbatim>\<open>try\<close>
  both \<^verbatim>\<open>except\<close> clauses return the empty list. A parsed paper is appended before the
  progress line is printed, so it stays in the list also when printing \<^verbatim>\<open>title[:50]\<close>
  raises, which the handler inside the loop catches.\<close>

definition fetch_paper_details_body ::
  "world \<Rightarrow> string list \<Rightarrow> request list \<Rightarrow> paper_object list outcome" where
  "fetch_paper_details_body w ids lg =
     (case send w (PubMed_efetch (join '','' ids)) lg of
        (Inl e, lg') \<Rightarrow> (Inl e, lg')
      | (Inr (status, body), lg') \<Rightarrow>
          (if status \<noteq> 200 then (Inr [], lg')
           else (case fromstring w body of
                   None \<Rightarrow> (Inl ParseError, lg')
                 | Some tree \<Rightarrow>
                     (Inr (concat (map (\<lambda>article. (case parse_paper_xml w article of
                                                       None \<Rightarrow> []
                                                     | Some paper \<Rightarrow> [paper]))
                                       (findall_desc ''PubmedArticle'' tree))),
                      lg'))))"

definition fetch_paper_details ::
  "world \<Rightarrow> string option list \<Rightarrow> request list \<Rightarrow> paper_object list outcome" where
  "fetch_paper_details w pmids lg =
     (if pmids = [] then (Inr [], lg)
      else (case those pmids of
              None \<Rightarrow> (Inl TypeError, lg)
            | Some ids \<Rightarrow> except_return (fetch_paper_details_body w ids lg) []))"

text \<open>\<^verbatim>\<open>_assess_paper_quality\<close> on an object: \<^verbatim>\<open>paper.journal.lower()\<close> raises
  \<^verbatim>\<open>AttributeError\<close> when the journal is \<^verbatim>\<open>None\<close>; a publication date that is
  \<^verbatim>\<open>None\<close> fails the test before the year is read and adds nothing. The terms are those of
  \<open>quality_sum\<close>.\<close>

definition assess_object :: "int \<Rightarrow> paper_object \<Rightarrow> py_exception + rat" where
  "assess_object year paper =
     (case o_journal paper of
        None \<Rightarrow> Inl AttributeError
      | Some j \<Rightarrow>
          Inr (min 1 (0 + study_type_term (o_study_type paper)
                        + sample_size_bonus (o_sample_size paper)
                        + journal_bonus j
                        + (case o_publication_date paper of
                             None \<Rightarrow> 0 | Some d \<Rightarrow> recency_bonus year d)
                        + disclosure_bonus (o_conflicts_disclosed paper))))"

text \<open>Step 3 of \<^verbatim>\<open>search_papers\<close>, the loop that scores every paper, and its
  \<^verbatim>\<open>sorted(..., reverse=True)\<close>, a stable sort by descending score.\<close>

fun score_all :: "int \<Rightarrow> paper_object list \<Rightarrow> py_exception + paper_object list" where
  "score_all year [] = Inr []"
| "score_all year (paper # papers) =
     (case assess_object year paper of
        Inl e \<Rightarrow> Inl e
      | Inr q \<Rightarrow> (case score_all year papers of
                    Inl e \<Rightarrow> Inl e
                  | Inr scored \<Rightarrow> Inr (paper\<lparr>o_quality_score := q\<rparr> # scored)))"

definition sort_by_quality :: "paper_object list \<Rightarrow> paper_object list" where
  "sort_by_quality papers = sort_key (\<lambda>p. - o_quality_score p) papers"

text \<open>\<^verbatim>\<open>PubMedSearcher.search_papers\<close>\<close>

definition pubmed_search_papers_body ::
  "world \<Rightarrow> string \<Rightarrow> nat \<Rightarrow> request list \<Rightarrow> paper_object list outcome" where
  "pubmed_search_papers_body w query max_results lg =
     and_then (search_pmids w query max_results lg) (\<lambda>pmids lg1.
     and_then (if pmids = []
               then (let simple_query = (case first_word query of
                                           Some word \<Rightarrow> word | None \<Rightarrow> query)
                     in search_pmids w simple_query max_results lg1)
               else (Inr pmids, lg1)) (\<lambda>pmids2 lg2.
     if pmids2 = [] then (Inr [], lg2)
     else and_then (fetch_paper_details w pmids2 lg2) (\<lambda>papers lg3.
          (case score_all (this_year w) papers of
             Inl e \<Rightarrow> (Inl e, lg3)
           | Inr scored \<Rightarrow> (Inr (sort_by_quality scored), lg3)))))"

definition pubmed_search_papers ::
  "world \<Rightarrow> string \<Rightarrow> nat \<Rightarrow> request list \<Rightarrow> paper_object list outcome" where
  "pubmed_search_papers w query max_results lg =
     except_return (pubmed_search_papers_body w query max_results lg) []"

subsection \<open>arXiv retrieval\<close>

definition atom :: "string \<Rightarrow> string" where
  "atom t = ''{http://www.w3.org/2005/Atom}'' @ t"

text \<open>
  One turn of the loop of \<^verbatim>\<open>ArXivSearcher._parse_arxiv_response\<close>, in two parts: the
  exception the turn raises, if any, and the paper it builds otherwise.
  \<^verbatim>\<open>title_elem.text.strip()\<close> and \<^verbatim>\<open>summary_elem.text.strip()\<close> raise
  \<^verbatim>\<open>AttributeError\<close> and \<^verbatim>\<open>published_elem.text[:10]\<close> raises \<^verbatim>\<open>TypeError\<close> when the
  text is \<^verbatim>\<open>None\<close>. The name of an author and the id are stored as they are; where they are
  \<^verbatim>\<open>None\<close> the paper built here has the empty text, and nothing in the pipeline reads
  these two fields. The fields not named in the constructor call have the defaults of the
  dataclass.
\<close>

definition text_missing :: "string \<Rightarrow> xml \<Rightarrow> bool" where
  "text_missing t entry =
     (case find_child (atom t) entry of None \<Rightarrow> False | Some e \<Rightarrow> etext e = None)"

definition arxiv_entry_raises :: "xml \<Rightarrow> py_exception option" where
  "arxiv_entry_raises entry =
     (if text_missing ''title'' entry then Some AttributeError
      else if text_missing ''summary'' entry then Some AttributeError
      else if text_missing ''published'' entry then Some TypeError
      else None)"

definition parse_arxiv_entry :: "xml \<Rightarrow> AcademicPaper" where
  "parse_arxiv_entry entry =
     (let title_v = (case find_child (atom ''title'') entry of
                       None \<Rightarrow> ''No title'' | Some e \<Rightarrow> py_strip (or_empty (etext e)));
          abstract_v = (case find_child (atom ''summary'') entry of
                          None \<Rightarrow> [] | Some e \<Rightarrow> py_strip (or_empty (etext e)));
          authors_v =
            concat (map (\<lambda>author. (case find_child (atom ''name'') author of
                                      None \<Rightarrow> []
                                    | Some name_elem \<Rightarrow> [or_empty (etext name_elem)]))
                        (findall_child (atom ''author'') entry));
          pub_date = (case find_child (atom ''published'') entry of
                        None \<Rightarrow> [] | Some e \<Rightarrow> take 10 (or_empty (etext e)));
          url_v = (case find_child (atom ''id'') entry of
                     None \<Rightarrow> [] | Some e \<Rightarrow> or_empty (etext e))
      in \<lparr> title = title_v, authors = authors_v, abstract = abstract_v,
           publication_date = pub_date, journal = ''arXiv preprint'', pmid = None,
           doi = None, url = url_v, study_type = ''preprint'', sample_size = None,
           peer_reviewed = False, impact_factor = None, conflicts_disclosed = False,
           funding_source = [], quality_score = 3 / 10 \<rparr>)"

text \<open>\<^verbatim>\<open>ArXivSearcher._parse_arxiv_response\<close>, again in two parts. A \<^verbatim>\<open>ParseError\<close> is
  caught inside and leaves the list empty; an exception of a turn of the loop is the one of
  the first entry that raises, and is not caught here.\<close>

definition parse_arxiv_raises :: "world \<Rightarrow> string \<Rightarrow> py_exception option" where
  "parse_arxiv_raises w xml_content =
     (case fromstring w xml_content of
        None \<Rightarrow> None
      | Some tree \<Rightarrow>
          first_of (concat (map (\<lambda>entry. (case arxiv_entry_raises entry of
                                             None \<Rightarrow> [] | Some e \<Rightarrow> [e]))
                                (findall_child (atom ''entry'') tree))))"

definition parse_arxiv_response :: "world \<Rightarrow> string \<Rightarrow> AcademicPaper list" where
  "parse_arxiv_response w xml_content =
     (case fromstring w xml_content of
        None \<Rightarrow> []
      | Some tree \<Rightarrow> map parse_arxiv_entry (findall_child (atom ''entry'') tree))"

text \<open>\<^verbatim>\<open>ArXivSearcher.search_papers\<close>\<close>

definition arxiv_search_papers_body ::
  "world \<Rightarrow> string \<Rightarrow> nat \<Rightarrow> request list \<Rightarrow> AcademicPaper list outcome" where
  "arxiv_search_papers_body w query max_results lg =
     (case send w (ArXiv_query (''all:'' @ query) max_results) lg of
        (Inl e, lg') \<Rightarrow> (Inl e, lg')
      | (Inr (status, body), lg') \<Rightarrow>
          (if status \<noteq> 200 then (Inr [], lg')
           else (case parse_arxiv_raises w body of
                   Some e \<Rightarrow> (Inl e, lg')
                 | None \<Rightarrow> (Inr (parse_arxiv_response w body), lg'))))"

definition arxiv_search_papers ::
  "world \<Rightarrow> string \<Rightarrow> nat \<Rightarrow> request list \<Rightarrow> AcademicPaper list outcome" where
  "arxiv_search_papers w query max_results lg =
     except_return (arxiv_search_papers_body w query max_results lg) []"

subsection \<open>The academic search step\<close>

text \<open>The conversion loop of \<^verbatim>\<open>academic_search\<close> on an object.\<close>

definition object_to_dict :: "paper_object \<Rightarrow> paper_dict" where
  "object_to_dict p =
     \<lparr> d_title = o_title p, d_authors = o_authors p, d_abstract = o_abstract p,
       d_journal = o_journal p, d_publication_date = o_publication_date p, d_url = o_url p,
       d_study_type = Some (o_study_type p), d_sample_size = o_sample_size p,
       d_quality_score = Some (o_quality_score p), d_peer_reviewed = o_peer_reviewed p,
       d_pmid = o_pmid p \<rparr>"

text \<open>
  \<^verbatim>\<open>AspartameAgent.academic_search\<close>, from the reply of the language model on. The loop
  over \<^verbatim>\<open>search_queries[:2]\<close> is \<open>pubmed_loop\<close>; an exception of a callee would end the
  function.
\<close>

fun pubmed_loop ::
  "world \<Rightarrow> string list \<Rightarrow> paper_object list \<Rightarrow> request list \<Rightarrow> paper_object list outcome"
  where
  "pubmed_loop w [] academic_papers lg = (Inr academic_papers, lg)"
| "pubmed_loop w (query # queries) academic_papers lg =
     (let clean_query = strip_quotes (py_strip query) in
      and_then (pubmed_search_papers w clean_query 3 lg) (\<lambda>papers lg'.
        pubmed_loop w queries (academic_papers @ papers) lg'))"

definition collect_papers ::
  "world \<Rightarrow> string \<Rightarrow> request list \<Rightarrow> paper_object list outcome" where
  "collect_papers w reply lg =
     (let search_queries = split_on CHR ''|'' reply in
      and_then (pubmed_loop w (take 2 search_queries) [] lg) (\<lambda>academic_papers lg1.
        if length academic_papers < 3 then
          (case search_queries of
             [] \<Rightarrow> (Inl IndexError, lg1)
           | q0 # _ \<Rightarrow>
               and_then (arxiv_search_papers w (py_strip q0) 2 lg1) (\<lambda>arxiv_papers lg2.
                 (Inr (academic_papers @ map object_of arxiv_papers), lg2)))
        else (Inr academic_papers, lg1)))"

definition academic_search ::
  "world \<Rightarrow> string \<Rightarrow> request list \<Rightarrow> paper_dict list outcome" where
  "academic_search w reply lg =
     and_then (collect_papers w reply lg) (\<lambda>academic_papers lg'.
       (Inr (map object_to_dict academic_papers), lg'))"

subsection \<open>Web search\<close>

text \<open>\<^verbatim>\<open>AspartameAgent._classify_source\<close> and \<^verbatim>\<open>_score_credibility\<close>\<close>

definition classify_source :: "string \<Rightarrow> string" where
  "classify_source u =
     (if sublist ''pubmed'' u \<or> sublist ''ncbi'' u then ''academic''
      else if any_term_in [''mayoclinic'', ''nih.gov'', ''cdc.gov''] u then ''medical_authority''
      else if any_term_in [''webmd'', ''healthline''] u then ''medical_site''
      else ''news'')"

definition score_credibility :: "string \<Rightarrow> rat" where
  "score_credibility u =
     (if sublist ''pubmed'' u \<or> sublist ''ncbi'' u then 95 / 100
      else if any_term_in [''nih.gov'', ''cdc.gov''] u then 9 / 10
      else if sublist ''mayoclinic'' u then 85 / 100
      else if any_term_in [''webmd'', ''healthline''] u then 7 / 10
      else 5 / 10)"

text \<open>\<^verbatim>\<open>r.get(key, "")\<close> on a result object.\<close>

definition get_text :: "json_text \<Rightarrow> string option" where
  "get_text v = (case v of Missing \<Rightarrow> Some [] | Null \<Rightarrow> None | Text s \<Rightarrow> Some s)"

text \<open>One turn of the loop of \<^verbatim>\<open>_tavily_search\<close>: \<^verbatim>\<open>"pubmed" in url\<close> raises
  \<^verbatim>\<open>TypeError\<close> when the url is \<^verbatim>\<open>None\<close>.\<close>

definition process_result :: "tavily_item \<Rightarrow> py_exception + web_source" where
  "process_result r =
     (case get_text (r_url r) of
        None \<Rightarrow> Inl TypeError
      | Some u \<Rightarrow>
          Inr \<lparr> w_title = get_text (r_title r), w_url = u, w_content = get_text (r_content r),
                w_source_type = classify_source u,
                w_credibility_score = Some (score_credibility u) \<rparr>)"

fun process_results :: "tavily_item list \<Rightarrow> py_exception + web_source list" where
  "process_results [] = Inr []"
| "process_results (r # rs) =
     (case process_result r of
        Inl e \<Rightarrow> Inl e
      | Inr s \<Rightarrow> (case process_results rs of Inl e \<Rightarrow> Inl e | Inr ss \<Rightarrow> Inr (s # ss)))"

text \<open>\<^verbatim>\<open>AspartameAgent._tavily_search\<close>\<close>

definition tavily_search_body :: "world \<Rightarrow> string \<Rightarrow> request list \<Rightarrow> web_source list outcome"
  where
  "tavily_search_body w query lg =
     (case send w (Tavily_search (query @ '' health medical'')) lg of
        (Inl e, lg') \<Rightarrow> (Inl e, lg')
      | (Inr (status, body), lg') \<Rightarrow>
          (if status = 200 then
             (case json_results w body of
                None \<Rightarrow> (Inl JSONDecodeError, lg')
              | Some results \<Rightarrow>
                  (if results = [] then (Inr [], lg')
                   else (case process_results results of
                           Inl e \<Rightarrow> (Inl e, lg')
                         | Inr processed_results \<Rightarrow> (Inr processed_results, lg'))))
           else (Inr [], lg')))"

definition tavily_search :: "world \<Rightarrow> string \<Rightarrow> request list \<Rightarrow> web_source list outcome" where
  "tavily_search w query lg =
     (if tavily_key w = None \<or> tavily_key w = Some [] then (Inr [], lg)
      else except_return (tavily_search_body w query lg) [])"

text \<open>\<^verbatim>\<open>AspartameAgent.web_search\<close>, from the reply of the language model on.\<close>

fun tavily_loop ::
  "world \<Rightarrow> string list \<Rightarrow> web_source list \<Rightarrow> request list \<Rightarrow> web_source list outcome" where
  "tavily_loop w [] sources lg = (Inr sources, lg)"
| "tavily_loop w (query # queries) sources lg =
     (let clean_query = strip_quotes (py_strip query) in
      and_then (tavily_search w clean_query lg) (\<lambda>web_results lg'.
        tavily_loop w queries (sources @ web_results) lg'))"

definition web_search :: "world \<Rightarrow> string \<Rightarrow> request list \<Rightarrow> web_source list outcome" where
  "web_search w reply lg = tavily_loop w (take 2 (split_on CHR ''|'' reply)) [] lg"

subsection \<open>The whole pipeline\<close>

text \<open>
  \<^verbatim>\<open>AspartameAgent.content_analysis\<close> builds its prompt from the first three papers and
  the first three web sources: \<^verbatim>\<open>paper['abstract'][:300]\<close> and
  \<^verbatim>\<open>src['content'][:300]\<close> raise \<^verbatim>\<open>TypeError\<close> on \<^verbatim>\<open>None\<close>, outside any handler.
\<close>

definition prompt_raises :: "paper_dict list \<Rightarrow> web_source list \<Rightarrow> py_exception option" where
  "prompt_raises papers sources =
     (if list_ex (\<lambda>paper. d_abstract paper = None) (take 3 papers) then Some TypeError
      else if list_ex (\<lambda>src. w_content src = None) (take 3 sources) then Some TypeError
      else None)"

text \<open>
  \<^verbatim>\<open>AspartameAgent.research\<close>: the five nodes of the graph in order, each with its call of
  the language model. The text of a reply matters only where the search queries are read
  from it.
\<close>

record evidence =
  academic_papers :: "paper_dict list"
  web_sources :: "web_source list"
  evidence_grade :: string
  confidence_score :: rat

definition research :: "world \<Rightarrow> request list \<Rightarrow> evidence outcome" where
  "research w lg =
     and_then (invoke w Planning lg) (\<lambda>research_plan lg.
     and_then (invoke w Academic_queries lg) (\<lambda>academic_reply lg.
     and_then (academic_search w academic_reply lg) (\<lambda>papers lg.
     and_then (invoke w Web_queries lg) (\<lambda>web_reply lg.
     and_then (web_search w web_reply lg) (\<lambda>sources lg.
     (case prompt_raises papers sources of
        Some e \<Rightarrow> (Inl e, lg)
      | None \<Rightarrow>
          and_then (invoke w Analysis lg) (\<lambda>analysis lg.
          and_then (invoke w Summary lg) (\<lambda>summary lg.
            (Inr \<lparr> academic_papers = papers, web_sources = sources,
                   evidence_grade = assess_evidence_grade papers,
                   confidence_score = calculate_confidence papers sources \<rparr>, lg)))))))))"

subsection \<open>Notions for stating the properties\<close>

text \<open>A request to the secondary source; a list of scores in descending order; the papers
  that the calls to the primary source of one academic search returned.\<close>

definition is_arxiv :: "request \<Rightarrow> bool" where
  "is_arxiv r = (case r of ArXiv_query q n \<Rightarrow> True | _ \<Rightarrow> False)"

definition descending :: "rat list \<Rightarrow> bool" where
  "descending xs = sorted_wrt (\<lambda>a b. a \<ge> b) xs"

definition primary_papers :: "world \<Rightarrow> string \<Rightarrow> request list \<Rightarrow> paper_object list" where
  "primary_papers w reply lg =
     (case fst (pubmed_loop w (take 2 (split_on CHR ''|'' reply)) [] lg) of
        Inr papers \<Rightarrow> papers
      | Inl e \<Rightarrow> [])"

text \<open>The list a call returned; the requests an academic search issued; the scores of the
  records it hands on.\<close>

definition returned :: "'a list outcome \<Rightarrow> 'a list" where
  "returned r = (case fst r of Inr xs \<Rightarrow> xs | Inl e \<Rightarrow> [])"

definition issued :: "world \<Rightarrow> string \<Rightarrow> request list \<Rightarrow> request list" where
  "issued w reply lg = drop (length lg) (snd (academic_search w reply lg))"

definition handed_on_scores :: "world \<Rightarrow> string \<Rightarrow> request list \<Rightarrow> rat list" where
  "handed_on_scores w reply lg = map get_quality_score (returned (academic_search w reply lg))"

text \<open>
  The retrieval calls of one academic search, in the order of the source: the call to the
  primary source for the first query, the one for the second query (there is none when the
  reply holds a single query), and the call to the secondary source, made from the state
  the primary calls left.
\<close>

definition clean_queries :: "string \<Rightarrow> string list" where
  "clean_queries reply = map (\<lambda>q. strip_quotes (py_strip q)) (take 2 (split_on CHR ''|'' reply))"

definition first_call :: "world \<Rightarrow> string \<Rightarrow> request list \<Rightarrow> paper_object list outcome" where
  "first_call w reply lg =
     (case clean_queries reply of
        q1 # _ \<Rightarrow> pubmed_search_papers w q1 3 lg
      | [] \<Rightarrow> (Inr [], lg))"

definition second_call :: "world \<Rightarrow> string \<Rightarrow> request list \<Rightarrow> paper_object list outcome" where
  "second_call w reply lg =
     (case clean_queries reply of
        _ # q2 # _ \<Rightarrow> pubmed_search_papers w q2 3 (snd (first_call w reply lg))
      | _ \<Rightarrow> (Inr [], snd (first_call w reply lg)))"

definition fallback_call :: "world \<Rightarrow> string \<Rightarrow> request list \<Rightarrow> AcademicPaper list outcome" where
  "fallback_call w reply lg =
     (case split_on CHR ''|'' reply of
        q0 # _ \<Rightarrow> arxiv_search_papers w (py_strip q0) 2 (snd (second_call w reply lg))
      | [] \<Rightarrow> (Inr [], snd (second_call w reply lg)))"

text \<open>A request that fails by raising, by a status other than 200, or by a body that the
  parser rejects.\<close>

definition fails_xml :: "world \<Rightarrow> request list \<Rightarrow> request \<Rightarrow> bool" where
  "fails_xml w lg r =
     (case net w lg r of
        Http_raises \<Rightarrow> True
      | Http_response status body \<Rightarrow> status \<noteq> 200 \<or> fromstring w body = None)"

definition fails_json :: "world \<Rightarrow> request list \<Rightarrow> request \<Rightarrow> bool" where
  "fails_json w lg r =
     (case net w lg r of
        Http_raises \<Rightarrow> True
      | Http_response status body \<Rightarrow> status \<noteq> 200 \<or> json_results w body = None)"

subsection \<open>Example values\<close>



definition web :: "rat \<Rightarrow> web_source" where
  "web c = \<lparr> w_title = Some [], w_url = [], w_content = Some [], w_source_type = ''news'',
             w_credibility_score = Some c \<rparr>"

definition rct_dict :: paper_dict where
  "rct_dict =
     \<lparr> d_title = Some ''A randomized trial'', d_authors = [], d_abstract = Some [],
       d_journal = Some [], d_publication_date = Some [], d_url = [],
       d_study_type = Some ''rct'', d_sample_size = None,
       d_quality_score = Some (46 / 100), d_peer_reviewed = True, d_pmid = None \<rparr>"

text \<open>
  A world in which the first PubMed query finds a case report, the second a
  meta-analysis, and arXiv one preprint; the web search has no key.
\<close>

definition id_list :: "string option \<Rightarrow> xml" where
  "id_list i =
     Element ''eSearchResult'' [] None [Element ''IdList'' [] None [Element ''Id'' [] i []]]"

definition article_set :: "xml list \<Rightarrow> xml" where
  "article_set parts =
     Element ''PubmedArticleSet'' [] None [Element ''PubmedArticle'' [] None parts]"

definition preprint_entry :: xml where
  "preprint_entry =
     Element (atom ''entry'') [] None [Element (atom ''title'') [] (Some ''A preprint'') []]"

definition two_call_world :: world where
  "two_call_world =
     \<lparr> net = (\<lambda>lg r. case r of
                        PubMed_esearch q n \<Rightarrow> Http_response 200 q
                      | PubMed_efetch ids \<Rightarrow> Http_response 200 ids
                      | ArXiv_query q n \<Rightarrow> Http_response 200 ''feed''
                      | _ \<Rightarrow> Http_raises),
       llm = (\<lambda>lg stage. Some ''low|high''),
       fromstring =
         (\<lambda>body. if body = ''low'' then Some (id_list (Some ''1''))
                  else if body = ''high'' then Some (id_list (Some ''2''))
                  else if body = ''1''
                    then Some (article_set [Element ''ArticleTitle'' [] (Some ''A case report'') []])
                  else if body = ''2''
                    then Some (article_set
                                 [Element ''ArticleTitle'' [] (Some ''A meta-analysis'') []])
                  else if body = ''feed''
                    then Some (Element (atom ''feed'') [] None [preprint_entry])
                  else None),
       re_search = (\<lambda>p a. None), json_results = (\<lambda>body. None), tavily_key = None,
       this_year = 2025 \<rparr>"

text \<open>
  A world in which every service answers: the one PubMed article has an
  \<^verbatim>\<open>AbstractText\<close> element without text, as in \<^verbatim>\<open><AbstractText/>\<close>.
\<close>

definition textless_abstract_world :: world where
  "textless_abstract_world =
     \<lparr> net = (\<lambda>lg r. case r of
                        PubMed_esearch q n \<Rightarrow> Http_response 200 ''ids''
                      | PubMed_efetch ids \<Rightarrow> Http_response 200 ''articles''
                      | ArXiv_query q n \<Rightarrow> Http_response 200 ''feed''
                      | _ \<Rightarrow> Http_response 200 ''results''),
       llm = (\<lambda>lg stage. Some ''aspartame safety''),
       fromstring =
         (\<lambda>body. if body = ''ids'' then Some (id_list (Some ''1''))
                  else if body = ''articles''
                    then Some (article_set
                                 [Element ''ArticleTitle'' [] (Some ''A case report'') [],
                                  Element ''AbstractText'' [] None []])
                  else if body = ''feed'' then Some (Element (atom ''feed'') [] None [])
                  else None),
       re_search = (\<lambda>p a. None), json_results = (\<lambda>body. Some []),
       tavily_key = Some ''key'', this_year = 2025 \<rparr>"

section \<open>Properties\<close>

subsection \<open>Strings\<close>

lemma py_lower_append: "py_lower (a @ b) = py_lower a @ py_lower b"
  by (simp add: py_lower_def)

lemma sublist_py_lower: "sublist m s \<Longrightarrow> sublist (py_lower m) (py_lower s)"
  unfolding py_lower_def by (rule map_mono_sublist)

lemma py_lower_meta: "py_lower ''meta-analysis'' = ''meta-analysis''"
  by (simp add: py_lower_def lower_char_def)

subsection \<open>Study classification\<close>

text \<open>
  C7. The classifier is total and first-match-wins over its ordered rules: for every title
  and abstract it returns one label of the seven (meta-analysis, rct, cohort, case-control,
  cross-sectional, review, observational), namely the label of the first rule of the ordered
  table with a keyword in the lower-cased text \<open>title + " " + abstract\<close>, or observational
  when there is none. In particular a text containing both "meta-analysis" and
  "randomized controlled trial" (in the concatenated text, or in its lower-cased form) is
  classified as meta-analysis, because the first rule is evaluated before the second.
\<close>

theorem classify_study_type_first_match:
  "classify_study_type ttl abstr \<in> set classifier_labels
   \<and> classify_study_type ttl abstr
       = first_match classifier_rules (py_lower (ttl @ '' '' @ abstr)) ''observational''
   \<and> (sublist ''meta-analysis'' (py_lower (ttl @ '' '' @ abstr))
        \<and> sublist ''randomized controlled trial'' (py_lower (ttl @ '' '' @ abstr))
       \<longrightarrow> classify_study_type ttl abstr = ''meta-analysis'')
   \<and> (sublist ''meta-analysis'' (ttl @ '' '' @ abstr)
        \<and> sublist ''randomized controlled trial'' (ttl @ '' '' @ abstr)
       \<longrightarrow> classify_study_type ttl abstr = ''meta-analysis'')"
proof -
  let ?text = "py_lower (ttl @ '' '' @ abstr)"
  have labels: "classify_study_type ttl abstr \<in> set classifier_labels"
    unfolding classify_study_type_def classifier_labels_def Let_def by simp
  have table: "classify_study_type ttl abstr
      = first_match classifier_rules ?text ''observational''"
    unfolding classify_study_type_def classifier_rules_def Let_def by simp
  have lowered: "classify_study_type ttl abstr = ''meta-analysis''"
    if "sublist ''meta-analysis'' ?text"
    using that unfolding classify_study_type_def Let_def any_term_in_def by simp
  have raw: "classify_study_type ttl abstr = ''meta-analysis''"
    if "sublist ''meta-analysis'' (ttl @ '' '' @ abstr)"
  proof -
    from that have "sublist (py_lower ''meta-analysis'') ?text"
      by (rule sublist_py_lower)
    then show ?thesis using lowered by (simp only: py_lower_meta)
  qed
  show ?thesis using labels table lowered raw by blast
qed

theorem classify_study_type_first_match_witness:
  "sublist ''meta-analysis'' (''A Meta-Analysis (meta-analysis)'' @ '' '' @ ''of each randomized controlled trial'')
   \<and> sublist ''randomized controlled trial'' (''A Meta-Analysis (meta-analysis)'' @ '' '' @ ''of each randomized controlled trial'')
   \<and> classify_study_type ''A Meta-Analysis (meta-analysis)'' ''of each randomized controlled trial''
       = ''meta-analysis''"
proof -
  have m: "sublist ''meta-analysis''
      (''A Meta-Analysis (meta-analysis)'' @ '' '' @ ''of each randomized controlled trial'')"
    by code_simp
  have r: "sublist ''randomized controlled trial''
      (''A Meta-Analysis (meta-analysis)'' @ '' '' @ ''of each randomized controlled trial'')"
    by code_simp
  from m r classify_study_type_first_match
    [of "''A Meta-Analysis (meta-analysis)''" "''of each randomized controlled trial''"]
  show ?thesis by blast
qed

subsection \<open>Quality scoring\<close>

lemma study_type_term_bounds: "0 \<le> study_type_term st \<and> study_type_term st \<le> 4 / 10"
  unfolding study_type_term_def type_scores_def
  by (simp split: option.split)

lemma sample_size_bonus_nonneg: "0 \<le> sample_size_bonus ss"
  unfolding sample_size_bonus_def by (simp split: option.split)

lemma journal_bonus_nonneg: "0 \<le> journal_bonus j"
  unfolding journal_bonus_def by simp

lemma recency_bonus_nonneg: "0 \<le> recency_bonus cy d"
  unfolding recency_bonus_def by (simp split: option.split)

lemma disclosure_bonus_nonneg: "0 \<le> disclosure_bonus c"
  unfolding disclosure_bonus_def by simp

lemma quality_sum_nonneg: "0 \<le> quality_sum cy p"
  unfolding quality_sum_def
  using study_type_term_bounds [of "study_type p"] sample_size_bonus_nonneg [of "sample_size p"]
    journal_bonus_nonneg [of "journal p"] recency_bonus_nonneg [of cy "publication_date p"]
    disclosure_bonus_nonneg [of "conflicts_disclosed p"]
  by linarith

text \<open>
  C5. For every record (any study type, any optional sample size, any journal text, any
  publication date text, any disclosure flag) and any current year, the quality score lies in
  the closed interval from 0 to 1.
\<close>

theorem assess_paper_quality_range:
  "0 \<le> assess_paper_quality current_year p \<and> assess_paper_quality current_year p \<le> 1"
  unfolding assess_paper_quality_def using quality_sum_nonneg [of current_year p] by simp






subsection \<open>Evidence grade\<close>

lemma has_type_image: "has_type t ps \<longleftrightarrow> t \<in> get_study_type ` set ps"
  unfolding has_type_def list_ex_iff by auto

lemma count_type_count_list: "count_list (map get_study_type ps) t = count_type t ps"
  unfolding count_type_def by (induction ps) auto

lemma fires_unique:
  assumes "rule_fires j ps" and "rule_fires k ps"
  shows "j = k"
proof -
  have no_earlier: False if jk: "a < b" and a: "rule_fires a ps" and b: "rule_fires b ps" for a b
  proof -
    from b have lt: "b < length grade_rules"
      and none: "list_all (\<lambda>r. \<not> fst r ps) (take b grade_rules)"
      unfolding rule_fires_def by simp_all
    from jk lt have "grade_rules ! a \<in> set (take b grade_rules)"
      by (metis in_set_conv_nth length_take min.absorb2 nth_take order_less_imp_le)
    with none have "\<not> fst (grade_rules ! a) ps" by (simp add: list_all_iff)
    with a show False unfolding rule_fires_def by simp
  qed
  from assms show ?thesis by (metis no_earlier linorder_neqE_nat)
qed

lemma fires_first_index: "rule_fires (first_index ps) ps"
proof -
  let ?P = "\<lambda>r. \<not> fst r ps"
  have eq: "take (first_index ps) grade_rules = takeWhile ?P grade_rules"
    unfolding first_index_def by (rule takeWhile_eq_take [symmetric])
  have "\<not> (\<forall>r \<in> set grade_rules. ?P r)" unfolding grade_rules_def by simp
  then have neq: "takeWhile ?P grade_rules \<noteq> grade_rules" by simp
  have "first_index ps \<noteq> length grade_rules"
  proof
    assume "first_index ps = length grade_rules"
    then have "take (first_index ps) grade_rules = grade_rules" by simp
    with eq neq show False by simp
  qed
  moreover have "first_index ps \<le> length grade_rules"
    unfolding first_index_def by (rule length_takeWhile_le)
  ultimately have lt: "first_index ps < length grade_rules" by simp
  then have holds: "fst (grade_rules ! first_index ps) ps"
    unfolding first_index_def using nth_length_takeWhile by blast
  have "list_all ?P (take (first_index ps) grade_rules)"
    unfolding eq list_all_iff using set_takeWhileD by fast
  with lt holds show ?thesis unfolding rule_fires_def by simp
qed

lemma grade_first_index: "assess_evidence_grade ps = snd (grade_rules ! first_index ps)"
  unfolding assess_evidence_grade_def first_index_def grade_rules_def Let_def
  by (simp add: has_type_image count_type_count_list count_high_quality_def)

text \<open>
  C2. The grader is total with first-match-wins semantics: for every list of scored records
  exactly one of the seven rules of the cascade fires (no records; a meta-analysis and at
  least two records of quality above 0.8; a meta-analysis otherwise; at least three rct
  records; an rct otherwise; a cohort or case-control record; otherwise), and the grade
  returned is the label of that rule. The seven labels are pairwise different.
\<close>

theorem assess_evidence_grade_one_rule:
  "(\<exists>!k. rule_fires k ps)
   \<and> (\<forall>k. rule_fires k ps \<longrightarrow> assess_evidence_grade ps = snd (grade_rules ! k))
   \<and> length grade_rules = 7 \<and> distinct (map snd grade_rules)"
proof (intro conjI allI impI)
  show "\<exists>!k. rule_fires k ps"
    using fires_first_index fires_unique by blast
next
  fix k assume "rule_fires k ps"
  then have "k = first_index ps" using fires_first_index fires_unique by blast
  then show "assess_evidence_grade ps = snd (grade_rules ! k)"
    by (simp add: grade_first_index)
next
  show "length grade_rules = 7" unfolding grade_rules_def by simp
next
  show "distinct (map snd grade_rules)" unfolding grade_rules_def by simp
qed

theorem assess_evidence_grade_one_rule_witness:
  "rule_fires 3 [rct_dict, rct_dict, rct_dict]
   \<and> assess_evidence_grade [rct_dict, rct_dict, rct_dict]
       = ''Moderate - Multiple randomized controlled trials''"
proof -
  have f: "rule_fires 3 [rct_dict, rct_dict, rct_dict]" by code_simp
  have l: "snd (grade_rules ! 3) = ''Moderate - Multiple randomized controlled trials''"
    unfolding grade_rules_def by simp
  from f l assess_evidence_grade_one_rule [of "[rct_dict, rct_dict, rct_dict]"]
  show ?thesis by metis
qed

subsection \<open>Confidence\<close>

text \<open>
  C3. With no academic record and no web result the confidence is exactly 0.2, and for every
  pair of input lists, whatever their scores, the confidence is at most 0.95.
\<close>

theorem calculate_confidence_floor_and_cap:
  "calculate_confidence [] [] = 2 / 10 \<and> calculate_confidence aps ws \<le> 95 / 100"
proof
  show "calculate_confidence [] [] = 2 / 10"
    unfolding calculate_confidence_def by simp
  show "calculate_confidence aps ws \<le> 95 / 100"
    unfolding calculate_confidence_def Let_def
    by (simp only: min.cobounded1 split: if_split) simp
qed

lemma web_only_components:
  assumes "w_credibility_score s1 = Some (9 / 10)" and "w_credibility_score s2 = Some (7 / 10)"
  shows "academic_confidence [] = 0" and "web_confidence [s1, s2] = 4 / 10"
  using assms
  unfolding academic_confidence_def web_confidence_def Let_def get_credibility_score_def
  by simp_all

text \<open>
  C4. With no academic record and exactly two web results, of credibility 0.9 and 0.7, the
  confidence is 0.12: the web component is 0.8 * 0.5 = 0.4 and the total
  0 * 0.7 + 0.4 * 0.3. The 0.2 of the empty case does not apply, because the web list is not
  empty.
\<close>

theorem calculate_confidence_web_only:
  assumes "w_credibility_score s1 = Some (9 / 10)" and "w_credibility_score s2 = Some (7 / 10)"
  shows "calculate_confidence [] [s1, s2] = 12 / 100"
  unfolding calculate_confidence_def Let_def web_only_components [OF assms] by simp

theorem calculate_confidence_web_only_witness:
  "w_credibility_score (web (9 / 10)) = Some (9 / 10)
   \<and> w_credibility_score (web (7 / 10)) = Some (7 / 10)
   \<and> calculate_confidence [] [web (9 / 10), web (7 / 10)] = 12 / 100"
proof -
  have a: "w_credibility_score (web (9 / 10)) = Some (9 / 10)"
    and b: "w_credibility_score (web (7 / 10)) = Some (7 / 10)"
    unfolding web_def by simp_all
  from a b calculate_confidence_web_only [OF a b] show ?thesis by simp
qed

subsection \<open>Records of the secondary source\<close>

lemma arxiv_entry_fields:
  "peer_reviewed (parse_arxiv_entry e) = False" "quality_score (parse_arxiv_entry e) = 3 / 10"
  "study_type (parse_arxiv_entry e) = ''preprint''" "journal (parse_arxiv_entry e) = ''arXiv preprint''"
  "sample_size (parse_arxiv_entry e) = None" "conflicts_disclosed (parse_arxiv_entry e) = False"
  unfolding parse_arxiv_entry_def Let_def by simp_all

lemma preprint_term: "study_type_term ''preprint'' = 12 / 100"
  unfolding study_type_term_def type_scores_def by simp

lemma arxiv_journal_bonus: "journal_bonus ''arXiv preprint'' = 0"
  by code_simp

lemma recency_bonus_le: "recency_bonus y d \<le> 1 / 10"
  unfolding recency_bonus_def by (simp split: option.split)

lemma arxiv_entry_scorer: "assess_paper_quality y (parse_arxiv_entry e) < 3 / 10"
proof -
  have "quality_sum y (parse_arxiv_entry e) = 12 / 100 + recency_bonus y (publication_date (parse_arxiv_entry e))"
    unfolding quality_sum_def arxiv_entry_fields preprint_term arxiv_journal_bonus
      sample_size_bonus_def disclosure_bonus_def by simp
  then have "quality_sum y (parse_arxiv_entry e) < 3 / 10"
    using recency_bonus_le [of y "publication_date (parse_arxiv_entry e)"] by linarith
  then show ?thesis unfolding assess_paper_quality_def by simp
qed

text \<open>
  C10. There is a non-empty academic input on which the confidence is strictly below 0.2:
  a single preprint record of the secondary source (score 0.3, one study type) and no web
  result give 0.7 * (0.3 * 0.8 + 0.2 * 0.2) = 0.196. So 0.2 is not a lower bound of the
  confidence when evidence is present.
\<close>

theorem preprint_confidence_below_floor:
  "calculate_confidence [paper_to_dict (parse_arxiv_entry e)] [] = 196 / 1000
   \<and> calculate_confidence [paper_to_dict (parse_arxiv_entry e)] [] < 2 / 10"
  unfolding calculate_confidence_def academic_confidence_def web_confidence_def Let_def
    paper_to_dict_def get_quality_score_def arxiv_entry_fields
  by simp

subsection \<open>Retrieval calls\<close>

lemma search_pmids_returns:
  "\<exists>ids. search_pmids w q n lg = (Inr ids, lg @ [PubMed_esearch q n])"
  unfolding search_pmids_def search_pmids_body_def send_def except_return_def
  by (simp split: http_outcome.split option.split)

lemma fetch_returns:
  "fetch_paper_details w pmids lg = (Inl TypeError, lg)
   \<or> (\<exists>ps ext. fetch_paper_details w pmids lg = (Inr ps, lg @ ext) \<and> \<not> list_ex is_arxiv ext)"
  unfolding fetch_paper_details_def fetch_paper_details_body_def send_def except_return_def
  by (auto simp: is_arxiv_def split: http_outcome.split option.split)

lemma arxiv_returns:
  "\<exists>ps. arxiv_search_papers w q n lg = (Inr ps, lg @ [ArXiv_query (''all:'' @ q) n])
        \<and> (\<forall>p \<in> set ps. \<exists>e. p = parse_arxiv_entry e)"
  unfolding arxiv_search_papers_def arxiv_search_papers_body_def send_def except_return_def
    parse_arxiv_response_def
  by (auto split: http_outcome.split option.split)

lemma tavily_returns:
  "\<exists>ss ext. tavily_search w q lg = (Inr ss, lg @ ext) \<and> \<not> list_ex is_arxiv ext"
  unfolding tavily_search_def tavily_search_body_def send_def except_return_def
  by (auto simp: is_arxiv_def split: http_outcome.split option.split sum.split)

lemma score_all_scores:
  "score_all year ps = Inr scored \<Longrightarrow> length scored = length ps"
  by (induction ps arbitrary: scored) (auto split: sum.splits)

lemma sort_by_quality_descending: "descending (map o_quality_score (sort_by_quality ps))"
proof -
  have "sorted (map (\<lambda>p. - o_quality_score p) (sort_by_quality ps))"
    unfolding sort_by_quality_def by (rule sorted_sort_key)
  then show ?thesis
    unfolding descending_def sorted_wrt_map by simp
qed

lemma pubmed_search_papers_returns:
  "\<exists>ps ext. pubmed_search_papers w q n lg = (Inr ps, lg @ ext)
      \<and> \<not> list_ex is_arxiv ext \<and> descending (map o_quality_score ps)"
proof -
  obtain ids where s1: "search_pmids w q n lg = (Inr ids, lg @ [PubMed_esearch q n])"
    using search_pmids_returns by blast
  let ?lg1 = "lg @ [PubMed_esearch q n]"
  let ?sq = "case first_word q of Some word \<Rightarrow> word | None \<Rightarrow> q"
  obtain ids' where s2: "search_pmids w ?sq n ?lg1 = (Inr ids', ?lg1 @ [PubMed_esearch ?sq n])"
    using search_pmids_returns by blast
  define ids2 where "ids2 = (if ids = [] then ids' else ids)"
  define ext2 where "ext2 = (if ids = [] then [PubMed_esearch q n, PubMed_esearch ?sq n]
                             else [PubMed_esearch q n])"
  have a2: "\<not> list_ex is_arxiv ext2" unfolding ext2_def by (simp add: is_arxiv_def)
  have d0: "descending (map o_quality_score ([] :: paper_object list))"
    unfolding descending_def by simp
  have step: "pubmed_search_papers w q n lg
      = except_return
          (if ids2 = [] then (Inr [], lg @ ext2)
           else and_then (fetch_paper_details w ids2 (lg @ ext2)) (\<lambda>papers lg3.
                  (case score_all (this_year w) papers of
                     Inl e \<Rightarrow> (Inl e, lg3)
                   | Inr scored \<Rightarrow> (Inr (sort_by_quality scored), lg3)))) []"
    unfolding pubmed_search_papers_def pubmed_search_papers_body_def Let_def and_then_def
    using s1 s2 by (simp add: ids2_def ext2_def)
  show ?thesis
  proof (cases "ids2 = []")
    case True
    then show ?thesis unfolding step except_return_def using a2 d0 by auto
  next
    case False
    from fetch_returns [of w ids2 "lg @ ext2"] show ?thesis
    proof
      assume "fetch_paper_details w ids2 (lg @ ext2) = (Inl TypeError, lg @ ext2)"
      then show ?thesis unfolding step except_return_def and_then_def using False a2 d0 by auto
    next
      assume "\<exists>ps ext. fetch_paper_details w ids2 (lg @ ext2) = (Inr ps, (lg @ ext2) @ ext)
          \<and> \<not> list_ex is_arxiv ext"
      then obtain ps ext where f: "fetch_paper_details w ids2 (lg @ ext2) = (Inr ps, (lg @ ext2) @ ext)"
        and a: "\<not> list_ex is_arxiv ext" by blast
      have a3: "\<not> list_ex is_arxiv (ext2 @ ext)" using a a2 by (auto simp: list_ex_iff)
      show ?thesis
        unfolding step except_return_def and_then_def
        using False f a3 d0 sort_by_quality_descending
        by (cases "score_all (this_year w) ps") (auto intro: exI [of _ "ext2 @ ext"])
    qed
  qed
qed


subsection \<open>The academic search step\<close>

lemma split_on_nonempty: "split_on c s \<noteq> []"
  by (induction s) (auto split: list.split)

lemma constant_descending: "(\<forall>x \<in> set xs. x = c) \<Longrightarrow> descending xs"
  unfolding descending_def by (induction xs) auto

lemma arxiv_result_descending:
  "descending (map quality_score (returned (arxiv_search_papers w q n lg)))"
proof -
  obtain ps where r: "arxiv_search_papers w q n lg = (Inr ps, lg @ [ArXiv_query (''all:'' @ q) n])"
    and es: "\<forall>p \<in> set ps. \<exists>e. p = parse_arxiv_entry e"
    using arxiv_returns [of w q n lg] by blast
  have "\<forall>x \<in> set (map quality_score ps). x = 3 / 10"
    using es arxiv_entry_fields(2) by auto
  then have "descending (map quality_score ps)" by (rule constant_descending)
  moreover have "returned (arxiv_search_papers w q n lg) = ps" unfolding returned_def r by simp
  ultimately show ?thesis by simp
qed

lemma collect_papers_calls:
  fixes w reply lg
  defines "P \<equiv> returned (first_call w reply lg) @ returned (second_call w reply lg)"
  shows "\<exists>ext r. \<not> list_ex is_arxiv ext \<and> is_arxiv r
      \<and> primary_papers w reply lg = P
      \<and> collect_papers w reply lg
          = (Inr (P @ (if length P < 3 then map object_of (returned (fallback_call w reply lg))
                       else [])),
             lg @ ext @ (if length P < 3 then [r] else []))"
proof -
  let ?qs = "split_on CHR ''|'' reply"
  obtain q0 rest where qs: "?qs = q0 # rest"
    using split_on_nonempty [of "CHR ''|''" reply] by (cases ?qs) auto
  let ?c1 = "strip_quotes (py_strip q0)"
  obtain ps1 ext1 where p1: "pubmed_search_papers w ?c1 3 lg = (Inr ps1, lg @ ext1)"
    and a1: "\<not> list_ex is_arxiv ext1"
    using pubmed_search_papers_returns by blast
  have f: "first_call w reply lg = (Inr ps1, lg @ ext1)"
    unfolding first_call_def clean_queries_def using qs p1 by simp
  obtain ps2 ext2 where s: "second_call w reply lg = (Inr ps2, lg @ ext1 @ ext2)"
    and a2: "\<not> list_ex is_arxiv ext2"
    and l: "pubmed_loop w (take 2 ?qs) [] lg = (Inr (ps1 @ ps2), lg @ ext1 @ ext2)"
  proof (cases rest)
    case Nil
    have "second_call w reply lg = (Inr [], lg @ ext1 @ [])"
      unfolding second_call_def clean_queries_def using qs Nil f by simp
    moreover have "pubmed_loop w (take 2 ?qs) [] lg = (Inr (ps1 @ []), lg @ ext1 @ [])"
      using qs Nil p1 by (simp add: and_then_def Let_def)
    ultimately show ?thesis using that [of "[]" "[]"] by simp
  next
    case (Cons q1 rest')
    let ?c2 = "strip_quotes (py_strip q1)"
    obtain ps2 ext2 where p2: "pubmed_search_papers w ?c2 3 (lg @ ext1) = (Inr ps2, (lg @ ext1) @ ext2)"
      and a2: "\<not> list_ex is_arxiv ext2"
      using pubmed_search_papers_returns by blast
    have "second_call w reply lg = (Inr ps2, lg @ ext1 @ ext2)"
      unfolding second_call_def clean_queries_def using qs Cons f p2 by simp
    moreover have "pubmed_loop w (take 2 ?qs) [] lg = (Inr (ps1 @ ps2), lg @ ext1 @ ext2)"
      using qs Cons p1 p2 by (simp add: and_then_def Let_def)
    ultimately show ?thesis using that [of ps2 ext2] a2 by simp
  qed
  have P: "P = ps1 @ ps2" unfolding P_def returned_def f s by simp
  have pp: "primary_papers w reply lg = P"
    unfolding primary_papers_def l P by simp
  let ?r = "ArXiv_query (''all:'' @ py_strip q0) 2"
  obtain ax where x: "arxiv_search_papers w (py_strip q0) 2 (lg @ ext1 @ ext2)
        = (Inr ax, (lg @ ext1 @ ext2) @ [?r])"
    using arxiv_returns by blast
  have fb: "returned (fallback_call w reply lg) = ax"
    unfolding fallback_call_def returned_def using qs s x by simp
  have a12: "\<not> list_ex is_arxiv (ext1 @ ext2)" using a1 a2 by (auto simp: list_ex_iff)
  have ar: "is_arxiv ?r" by (simp add: is_arxiv_def)
  have "collect_papers w reply lg
      = (Inr (P @ (if length P < 3 then map object_of ax else [])),
         lg @ (ext1 @ ext2) @ (if length P < 3 then [?r] else []))"
    unfolding collect_papers_def Let_def and_then_def using l x qs P by simp
  with a12 ar pp fb show ?thesis by blast
qed


lemma dict_score: "get_quality_score (object_to_dict p) = o_quality_score p"
  unfolding get_quality_score_def object_to_dict_def by simp

lemma object_of_score: "o_quality_score (object_of p) = quality_score p"
  unfolding object_of_def by simp

lemma academic_search_dicts:
  "academic_search w reply lg
     = (Inr (map object_to_dict (returned (collect_papers w reply lg))),
        snd (collect_papers w reply lg))"
  using collect_papers_calls [of w reply lg]
  unfolding academic_search_def and_then_def returned_def by auto

lemma first_call_descending:
  "descending (map o_quality_score (returned (first_call w reply lg)))"
proof (cases "clean_queries reply")
  case Nil
  then show ?thesis unfolding first_call_def returned_def descending_def by simp
next
  case (Cons q1 qs)
  then show ?thesis
    unfolding first_call_def returned_def
    using pubmed_search_papers_returns [of w q1 3 lg] by auto
qed

lemma second_call_descending:
  "descending (map o_quality_score (returned (second_call w reply lg)))"
proof (cases "clean_queries reply")
  case Nil
  then show ?thesis unfolding second_call_def returned_def descending_def by simp
next
  case (Cons q1 qs)
  show ?thesis
  proof (cases qs)
    case Nil
    with Cons show ?thesis unfolding second_call_def returned_def descending_def by simp
  next
    case (Cons q2 qs')
    with \<open>clean_queries reply = q1 # qs\<close> show ?thesis
      unfolding second_call_def returned_def
      using pubmed_search_papers_returns [of w q2 3 "snd (first_call w reply lg)"] by auto
  qed
qed

lemma fallback_call_descending:
  "descending (map quality_score (returned (fallback_call w reply lg)))"
proof (cases "split_on CHR ''|'' reply")
  case Nil
  then show ?thesis unfolding fallback_call_def returned_def descending_def by simp
next
  case (Cons q0 qs)
  then show ?thesis
    unfolding fallback_call_def using arxiv_result_descending by simp
qed

lemma two_call_scores: "handed_on_scores two_call_world ''low|high'' [] = [2 / 10, 4 / 10, 3 / 10]"
  by code_simp

text \<open>
  C1, as stated, fails: the list handed on is not always in descending order of score. With
  two queries whose results score 0.2 and 0.4, and one preprint, it is 0.2, 0.4, 0.3.
\<close>

theorem combined_list_not_sorted:
  "\<not> descending (handed_on_scores two_call_world ''low|high'' [])"
  unfolding two_call_scores descending_def by simp

text \<open>
  C1, amended. The list handed on is the result list of the call to the primary source for
  the first query, followed by the result list of the call for the second query, followed,
  when these two lists hold fewer than three records together, by the result list of the call
  to the secondary source. Each of the three lists is in descending order of score: a call
  to the primary source sorts its own result, and every record of the secondary source has
  the score 0.3. The combined list is not sorted again.
\<close>

theorem combined_list_in_call_order:
  "returned (collect_papers w reply lg)
     = returned (first_call w reply lg) @ returned (second_call w reply lg)
       @ (if length (returned (first_call w reply lg) @ returned (second_call w reply lg)) < 3
          then map object_of (returned (fallback_call w reply lg)) else [])
   \<and> returned (academic_search w reply lg)
       = map object_to_dict (returned (collect_papers w reply lg))
   \<and> handed_on_scores w reply lg
       = map o_quality_score (returned (collect_papers w reply lg))
   \<and> descending (map o_quality_score (returned (first_call w reply lg)))
   \<and> descending (map o_quality_score (returned (second_call w reply lg)))
   \<and> descending (map quality_score (returned (fallback_call w reply lg)))"
proof -
  have c: "returned (collect_papers w reply lg)
     = returned (first_call w reply lg) @ returned (second_call w reply lg)
       @ (if length (returned (first_call w reply lg) @ returned (second_call w reply lg)) < 3
          then map object_of (returned (fallback_call w reply lg)) else [])"
    using collect_papers_calls [of w reply lg] unfolding returned_def [of "collect_papers w reply lg"]
    by auto
  have a: "returned (academic_search w reply lg)
       = map object_to_dict (returned (collect_papers w reply lg))"
    unfolding academic_search_dicts returned_def [of "(Inr _, _)"] by simp
  have h: "handed_on_scores w reply lg
       = map o_quality_score (returned (collect_papers w reply lg))"
    unfolding handed_on_scores_def a by (simp add: dict_score comp_def)
  from c a h first_call_descending second_call_descending fallback_call_descending
  show ?thesis by blast
qed


theorem combined_list_in_call_order_witness:
  "handed_on_scores two_call_world ''low|high'' []
     = map o_quality_score (returned (collect_papers two_call_world ''low|high'' []))
   \<and> map o_quality_score (returned (first_call two_call_world ''low|high'' [])) = [2 / 10]
   \<and> map o_quality_score (returned (second_call two_call_world ''low|high'' [])) = [4 / 10]
   \<and> map quality_score (returned (fallback_call two_call_world ''low|high'' [])) = [3 / 10]
   \<and> handed_on_scores two_call_world ''low|high'' [] = [2 / 10, 4 / 10, 3 / 10]"
proof -
  have 1: "map o_quality_score (returned (first_call two_call_world ''low|high'' [])) = [2 / 10]"
    by code_simp
  have 2: "map o_quality_score (returned (second_call two_call_world ''low|high'' [])) = [4 / 10]"
    by code_simp
  have 3: "map quality_score (returned (fallback_call two_call_world ''low|high'' [])) = [3 / 10]"
    by code_simp
  from 1 2 3 two_call_scores
    combined_list_in_call_order [of two_call_world "''low|high''" "[]"]
  show ?thesis by simp
qed

subsection \<open>The secondary source\<close>

lemma arxiv_entry_facts:
  "\<not> peer_reviewed (parse_arxiv_entry e) \<and> quality_score (parse_arxiv_entry e) = 3 / 10
   \<and> assess_paper_quality y (parse_arxiv_entry e) < 3 / 10"
  using arxiv_entry_fields(1,2) [of e] arxiv_entry_scorer [of y e] by simp

text \<open>
  C8. Every record of the secondary source is not peer reviewed and has the score 0.3,
  which is not the value the scorer gives it (that one is below 0.3), both in what the
  parser builds and in what the search call returns; and an academic search sends a request
  to the secondary source if and only if its calls to the primary source returned fewer
  than three records together.
\<close>

theorem secondary_source_records:
  "(\<forall>p \<in> set (returned (arxiv_search_papers w q n lg)).
       \<not> peer_reviewed p \<and> quality_score p = 3 / 10 \<and> assess_paper_quality y p < 3 / 10)
   \<and> (\<forall>p \<in> set (parse_arxiv_response w body).
       \<not> peer_reviewed p \<and> quality_score p = 3 / 10 \<and> assess_paper_quality y p < 3 / 10)
   \<and> (list_ex is_arxiv (issued w reply lg) \<longleftrightarrow> length (primary_papers w reply lg) < 3)"
proof -
  obtain ps where r: "arxiv_search_papers w q n lg
        = (Inr ps, lg @ [ArXiv_query (''all:'' @ q) n])"
    and es: "\<forall>p \<in> set ps. \<exists>e. p = parse_arxiv_entry e"
    using arxiv_returns [of w q n lg] by blast
  have "returned (arxiv_search_papers w q n lg) = ps"
    unfolding returned_def r by simp
  with es have call: "\<forall>p \<in> set (returned (arxiv_search_papers w q n lg)).
       \<not> peer_reviewed p \<and> quality_score p = 3 / 10 \<and> assess_paper_quality y p < 3 / 10"
    by (metis arxiv_entry_facts)
  have "\<forall>p \<in> set (parse_arxiv_response w body). \<exists>e. p = parse_arxiv_entry e"
    unfolding parse_arxiv_response_def by (auto split: option.splits)
  then have parse: "\<forall>p \<in> set (parse_arxiv_response w body).
       \<not> peer_reviewed p \<and> quality_score p = 3 / 10 \<and> assess_paper_quality y p < 3 / 10"
    by (metis arxiv_entry_facts)
  obtain ext r where a: "\<not> list_ex is_arxiv ext" and ar: "is_arxiv r"
    and c: "snd (collect_papers w reply lg)
        = lg @ ext @ (if length (primary_papers w reply lg) < 3 then [r] else [])"
    using collect_papers_calls [of w reply lg] by (metis snd_conv)
  have "issued w reply lg = ext @ (if length (primary_papers w reply lg) < 3 then [r] else [])"
    unfolding issued_def academic_search_dicts using c by simp
  with a ar have fallback:
    "list_ex is_arxiv (issued w reply lg) \<longleftrightarrow> length (primary_papers w reply lg) < 3"
    by (auto simp: list_ex_iff)
  from call parse fallback show ?thesis by blast
qed

lemma two_call_arxiv:
  "returned (arxiv_search_papers two_call_world ''low'' 2 []) = [parse_arxiv_entry preprint_entry]"
  by code_simp

lemma two_call_primary: "length (primary_papers two_call_world ''low|high'' []) = 2"
  by code_simp

theorem secondary_source_records_witness:
  "parse_arxiv_entry preprint_entry \<in> set (returned (arxiv_search_papers two_call_world ''low'' 2 []))
   \<and> \<not> peer_reviewed (parse_arxiv_entry preprint_entry)
   \<and> quality_score (parse_arxiv_entry preprint_entry) = 3 / 10
   \<and> assess_paper_quality 2025 (parse_arxiv_entry preprint_entry) < 3 / 10
   \<and> length (primary_papers two_call_world ''low|high'' []) < 3
   \<and> list_ex is_arxiv (issued two_call_world ''low|high'' [])"
  using secondary_source_records
    [where w = two_call_world and q = "''low''" and n = 2 and lg = "[]" and y = 2025
       and body = "''feed''" and reply = "''low|high''"]
    two_call_arxiv two_call_primary
  by simp

subsection \<open>Exceptions that leave the pipeline\<close>

text \<open>
  C9. The claim is that no retrieval operation passes an exception on to its caller and
  that the pipeline returns a result whatever the services answer. The code breaks it in
  two places that stand outside its handlers. All services answer with status 200 here; the
  one article has an \<^verbatim>\<open>AbstractText\<close> element without text. The PubMed search returns the
  paper with the abstract \<^verbatim>\<open>None\<close>, and the pipeline ends with \<^verbatim>\<open>TypeError\<close>, raised by
  \<^verbatim>\<open>paper['abstract'][:300]\<close> in \<^verbatim>\<open>content_analysis\<close>. And
  \<^verbatim>\<open>_fetch_paper_details\<close>, called with an id that is \<^verbatim>\<open>None\<close>, raises
  \<^verbatim>\<open>TypeError\<close> to its caller, from the \<^verbatim>\<open>join\<close> that stands before its \<^verbatim>\<open>try\<close>.
\<close>

theorem research_raises_on_textless_abstract:
  "fst (research textless_abstract_world []) = Inl TypeError
   \<and> map o_abstract (returned (pubmed_search_papers textless_abstract_world ''aspartame safety'' 3 []))
       = [None]
   \<and> fst (fetch_paper_details textless_abstract_world [None] []) = Inl TypeError
   \<and> returned (search_pmids textless_abstract_world ''aspartame safety'' 3 []) = [Some ''1'']"
  by code_simp

end
